theory Spec2Isabelle
  imports Complex_Main "HOL-Library.Sublist"
begin

section \<open>Time-locked Miracle Decay (src/miracle_decay.py)\<close>

text \<open>
  Python floats are modelled as the reals (rounding, infinities and NaN are not
  represented), except where a property turns on rounding: \<open>calculate_g_min\<close> is also
  given with binary64 rounding written out. Python ints are \<open>int\<close>, and a
  one-dimensional numpy array is a \<open>real list\<close>. Lists are values, so storing a list in the state is the copy that
  \<^verbatim>\<open>integrals.copy()\<close> makes. The human-readable \<^verbatim>\<open>"message"\<close> strings of the
  returned dictionaries are left out; every other key is a field of the result.
\<close>

datatype MiraclePhase = NONE | PENDING | CONFIRMED | CANCELLED | HIJACK_DETECTED

fun phase_value :: "MiraclePhase \<Rightarrow> string" where
  "phase_value NONE = ''none''"
| "phase_value PENDING = ''pending''"
| "phase_value CONFIRMED = ''confirmed''"
| "phase_value CANCELLED = ''cancelled''"
| "phase_value HIJACK_DETECTED = ''hijack''"

text \<open>The three shapes of dictionary that \<^verbatim>\<open>tick\<close> appends to its logs.\<close>

datatype log_entry =
    CancelledEntry (turn: int) (d_dot: real) (theta: real)
                   (hijack_suspected: bool) (integrals_unchanged: bool)
  | TickEntry int real real "real list"
  | ConfirmedEntry "real list" "real list" real

record MiracleDecayState =
  phase :: MiraclePhase
  turns_elapsed :: int
  initial_integrals :: "real list"
  decay_log :: "log_entry list"

definition default_state :: MiracleDecayState where
  "default_state =
     \<lparr>phase = NONE, turns_elapsed = 0, initial_integrals = [0, 0, 0, 0], decay_log = []\<rparr>"

record MiracleDecayManager =
  k_max :: int
  theta_cancel :: real
  rho :: real
  kappa :: real
  state :: MiracleDecayState
  history :: "log_entry list"

definition init_manager :: "int \<Rightarrow> real \<Rightarrow> real \<Rightarrow> real \<Rightarrow> MiracleDecayManager" where
  "init_manager k th r kp =
     \<lparr>k_max = k, theta_cancel = th, rho = r, kappa = kp,
      state = default_state, history = []\<rparr>"

datatype attempt_result =
    AlreadyPending int
  | PendingStarted real real int
  | Rejected real real real

definition attempt_miracle ::
  "MiracleDecayManager \<Rightarrow> real list \<Rightarrow> real \<Rightarrow> real \<Rightarrow> real
     \<Rightarrow> attempt_result \<times> MiracleDecayManager" where
  "attempt_miracle self integrals g_value g_min v_consistency =
     (if phase (state self) = PENDING then
        (AlreadyPending (k_max self - turns_elapsed (state self)), self)
      else if g_value > g_min \<and> v_consistency > 0.7 then
        (PendingStarted g_value g_min (k_max self),
         self\<lparr>state := \<lparr>phase = PENDING, turns_elapsed = 0,
                         initial_integrals = integrals, decay_log = []\<rparr>\<rparr>)
      else
        (Rejected g_value g_min v_consistency, self))"

text \<open>
  Python's \<^verbatim>\<open>round(x, 4)\<close>: the nearest multiple of \<open>1/10000\<close>, a tie going to the
  even neighbour.
\<close>

definition round_half_even :: "real \<Rightarrow> int" where
  "round_half_even x =
     (let f = \<lfloor>x\<rfloor>; d = x - of_int f
      in if d < 1 / 2 then f else if d > 1 / 2 then f + 1
         else if even f then f else f + 1)"

definition round4 :: "real \<Rightarrow> real" where
  "round4 x = of_int (round_half_even (x * 10000)) / 10000"

datatype tick_result =
    ActionNone string
  | ActionRollback string bool
  | ActionApplyReset string "real list" "real list" "real list"
  | ActionMonitoring string int real

text \<open>The \<^verbatim>\<open>"action"\<close> and \<^verbatim>\<open>"phase"\<close> keys of a returned dictionary.\<close>

fun action :: "tick_result \<Rightarrow> string" where
  "action (ActionNone p) = ''none''"
| "action (ActionRollback p h) = ''rollback''"
| "action (ActionApplyReset p n b a) = ''apply_reset''"
| "action (ActionMonitoring p t f) = ''monitoring''"

fun result_phase :: "tick_result \<Rightarrow> string" where
  "result_phase (ActionNone p) = p"
| "result_phase (ActionRollback p h) = p"
| "result_phase (ActionApplyReset p n b a) = p"
| "result_phase (ActionMonitoring p t f) = p"

text \<open>
  \<^verbatim>\<open>tick\<close> returns its dictionary, the manager after the call, and the caller's
  \<^verbatim>\<open>integrals\<close> array after the call (the method receives the array by reference and
  never assigns to it).
\<close>

definition tick ::
  "MiracleDecayManager \<Rightarrow> real list \<Rightarrow> real
     \<Rightarrow> tick_result \<times> MiracleDecayManager \<times> real list" where
  "tick self integrals d =
     (if phase (state self) \<noteq> PENDING then
        (ActionNone (phase_value (phase (state self))), self, integrals)
      else
        let st1 = (state self)\<lparr>turns_elapsed := turns_elapsed (state self) + 1\<rparr> in
        if d > theta_cancel self then
          let is_hijack = (turns_elapsed st1 \<le> k_max self div 2);
              st2 = st1\<lparr>phase := (if is_hijack then HIJACK_DETECTED else CANCELLED)\<rparr>;
              entry = CancelledEntry (turns_elapsed st2) d (theta_cancel self) is_hijack True;
              st3 = st2\<lparr>decay_log := decay_log st2 @ [entry]\<rparr>
          in (ActionRollback (phase_value (phase st3)) is_hijack,
              self\<lparr>state := st3, history := history self @ [entry]\<rparr>,
              integrals)
        else
          let k = turns_elapsed st1;
              decay_factor = exp (- kappa self * of_int k);
              projected_integrals = map (\<lambda>x. x * decay_factor) (initial_integrals st1);
              entry = TickEntry k d (round4 decay_factor) projected_integrals;
              st2 = st1\<lparr>decay_log := decay_log st1 @ [entry]\<rparr>
          in if turns_elapsed st2 \<ge> k_max self then
               let confirmed_integrals =
                     map (\<lambda>x. x * (1 - rho self)) (initial_integrals st2);
                   st3 = st2\<lparr>phase := CONFIRMED\<rparr>
               in (ActionApplyReset ''confirmed'' confirmed_integrals
                     (initial_integrals st3) confirmed_integrals,
                   self\<lparr>state := st3,
                        history := history self @
                          [ConfirmedEntry (initial_integrals st3) confirmed_integrals
                             (rho self)]\<rparr>,
                   integrals)
             else
               (ActionMonitoring ''pending'' (k_max self - turns_elapsed st2)
                  (round4 decay_factor),
                self\<lparr>state := st2\<rparr>, integrals))"

definition reset :: "MiracleDecayManager \<Rightarrow> MiracleDecayManager" where
  "reset self = self\<lparr>state := default_state\<rparr>"

definition get_phase :: "MiracleDecayManager \<Rightarrow> MiraclePhase" where
  "get_phase self = phase (state self)"

definition get_history :: "MiracleDecayManager \<Rightarrow> log_entry list" where
  "get_history self = history self"

text \<open>
  The caller's loop over a list of per-turn inputs, one \<^verbatim>\<open>tick\<close> per element, as in
  the scenarios at the end of the module; it collects the returned dictionaries.
\<close>

fun run_ticks ::
  "MiracleDecayManager \<Rightarrow> (real list \<times> real) list
     \<Rightarrow> tick_result list \<times> MiracleDecayManager" where
  "run_ticks self [] = ([], self)"
| "run_ticks self ((integrals, d) # rest) =
     (case tick self integrals d of
        (r, self', _) \<Rightarrow>
          (case run_ticks self' rest of (rs, self'') \<Rightarrow> (r # rs, self'')))"

text \<open>
  A call of the manager's interface, and a caller that makes a list of calls in order.
\<close>

datatype manager_call =
    CallAttempt "real list" real real real
  | CallTick "real list" real
  | CallReset

fun apply_call :: "MiracleDecayManager \<Rightarrow> manager_call \<Rightarrow> MiracleDecayManager" where
  "apply_call self (CallAttempt integrals g_value g_min v_consistency) =
     snd (attempt_miracle self integrals g_value g_min v_consistency)"
| "apply_call self (CallTick integrals d) = fst (snd (tick self integrals d))"
| "apply_call self CallReset = reset self"

fun run_calls :: "MiracleDecayManager \<Rightarrow> manager_call list \<Rightarrow> MiracleDecayManager" where
  "run_calls self [] = self"
| "run_calls self (c # cs) = run_calls (apply_call self c) cs"

section \<open>Anomaly tracker (src/anomaly_tracker.py)\<close>

text \<open>
  The arguments of \<^verbatim>\<open>update_anomaly\<close> are modelled as one-dimensional lists of floats.
  \<^verbatim>\<open>np.array(d_obs) - np.array(d_hat)\<close> subtracts elementwise when the lengths agree,
  stretches an operand of length one over the other (numpy broadcasting), and raises
  \<^verbatim>\<open>ValueError\<close> for any other pair of lengths. The method itself checks nothing.
\<close>

datatype py_error = ValueError

definition np_subtract :: "real list \<Rightarrow> real list \<Rightarrow> py_error + real list" where
  "np_subtract xs ys =
     (if length xs = length ys then Inr (map2 (\<lambda>x y. x - y) xs ys)
      else if length xs = 1 then Inr (map (\<lambda>y. hd xs - y) ys)
      else if length ys = 1 then Inr (map (\<lambda>x. x - hd ys) xs)
      else Inl ValueError)"

text \<open>\<^verbatim>\<open>np.linalg.norm\<close> of a vector: the root of the sum of the squared magnitudes.\<close>

definition linalg_norm :: "real list \<Rightarrow> real" where
  "linalg_norm xs = sqrt (sum_list (map (\<lambda>x. \<bar>x\<bar> ^ 2) xs))"

record AnomalyTracker =
  tau :: real
  g0 :: real
  alpha :: real
  a_anom :: real

definition init_tracker :: "real \<Rightarrow> real \<Rightarrow> real \<Rightarrow> AnomalyTracker" where
  "init_tracker t g a = \<lparr>tau = t, g0 = g, alpha = a, a_anom = 0\<rparr>"

text \<open>
  \<^verbatim>\<open>update_anomaly\<close> returns the value or the exception, and the tracker after the call:
  the subtraction raises before \<^verbatim>\<open>self.a_anom\<close> is assigned.
\<close>

definition update_anomaly ::
  "AnomalyTracker \<Rightarrow> real list \<Rightarrow> real list \<Rightarrow> (py_error + real) \<times> AnomalyTracker" where
  "update_anomaly self d_obs d_hat_history =
     (case np_subtract d_obs d_hat_history of
        Inl e \<Rightarrow> (Inl e, self)
      | Inr diff \<Rightarrow>
          let distance = linalg_norm diff;
              a = (1 - tau self) * a_anom self + tau self * distance
          in (Inr a, self\<lparr>a_anom := a\<rparr>))"

text \<open>
  With a zero denominator the division has no real value (a Python float raises
  \<^verbatim>\<open>ZeroDivisionError\<close>, a numpy float gives an infinity or NaN): the model returns
  \<open>None\<close>.
\<close>

definition calculate_g_min :: "AnomalyTracker \<Rightarrow> real option" where
  "calculate_g_min self =
     (if a_anom self + alpha self = 0 then None
      else let fraction = a_anom self / (a_anom self + alpha self)
           in Some (g0 self + (1 - g0 self) * fraction))"

text \<open>
  The interpreter computes in IEEE 754 binary64. \<open>binary64 x\<close> is the double nearest to
  the real \<open>x\<close> (53-bit significand, ties to the even significand, gradual underflow
  below \<open>2 ^ - 1022\<close>), or \<open>None\<close> when the rounded magnitude reaches \<open>2 ^ 1024\<close> and
  the double is an infinity. Infinities and NaN are not followed further: \<open>None\<close> says
  only that a result left the finite doubles.
\<close>

definition binary64 :: "real \<Rightarrow> real option" where
  "binary64 x =
     (if x = 0 then Some 0
      else
        let e = max \<lfloor>log 2 \<bar>x\<bar>\<rfloor> (- 1022);
            u = 2 powr (of_int e - 52);
            r = of_int (round_half_even (x / u)) * u
        in if 2 ^ 1024 \<le> \<bar>r\<bar> then None else Some r)"

text \<open>
  \<^verbatim>\<open>calculate_g_min\<close> with each of its five arithmetic operations rounded as the
  interpreter rounds it; the fields of the tracker hold doubles. The result is \<open>None\<close>
  when the denominator is zero or an intermediate value is not a finite double.
\<close>

definition calculate_g_min_binary64 :: "AnomalyTracker \<Rightarrow> real option" where
  "calculate_g_min_binary64 self =
     (case binary64 (a_anom self + alpha self) of
        None \<Rightarrow> None
      | Some s \<Rightarrow>
          if s = 0 then None
          else
            (case binary64 (a_anom self / s) of
               None \<Rightarrow> None
             | Some fraction \<Rightarrow>
                 (case binary64 (1 - g0 self) of
                    None \<Rightarrow> None
                  | Some c \<Rightarrow>
                      (case binary64 (c * fraction) of
                         None \<Rightarrow> None
                       | Some p \<Rightarrow> binary64 (g0 self + p)))))"

text \<open>
  The caller's loop of successive updates, as in the simulation at the end of the module;
  an exception leaves the loop.
\<close>

fun update_all ::
  "AnomalyTracker \<Rightarrow> (real list \<times> real list) list \<Rightarrow> py_error + AnomalyTracker" where
  "update_all self [] = Inr self"
| "update_all self ((d_obs, d_hat) # rest) =
     (case update_anomaly self d_obs d_hat of
        (Inl e, _) \<Rightarrow> Inl e
      | (Inr _, self') \<Rightarrow> update_all self' rest)"

section \<open>Properties of the decay manager\<close>

subsection \<open>One tick, by case\<close>

lemma tick_quiet_monitoring:
  assumes "phase (state s) = PENDING" "d \<le> theta_cancel s"
    "turns_elapsed (state s) + 1 < k_max s"
  shows "tick s i d =
    (ActionMonitoring ''pending'' (k_max s - (turns_elapsed (state s) + 1))
       (round4 (exp (- kappa s * of_int (turns_elapsed (state s) + 1)))),
     s\<lparr>state := (state s)\<lparr>turns_elapsed := turns_elapsed (state s) + 1,
          decay_log := decay_log (state s) @
            [TickEntry (turns_elapsed (state s) + 1) d
               (round4 (exp (- kappa s * of_int (turns_elapsed (state s) + 1))))
               (map (\<lambda>x. x * exp (- kappa s * of_int (turns_elapsed (state s) + 1)))
                  (initial_integrals (state s)))]\<rparr>\<rparr>, i)"
  using assms by (simp add: tick_def Let_def)

lemma tick_quiet_confirm:
  assumes "phase (state s) = PENDING" "d \<le> theta_cancel s"
    "k_max s \<le> turns_elapsed (state s) + 1"
  shows "tick s i d =
    (ActionApplyReset ''confirmed''
       (map (\<lambda>x. x * (1 - rho s)) (initial_integrals (state s)))
       (initial_integrals (state s))
       (map (\<lambda>x. x * (1 - rho s)) (initial_integrals (state s))),
     s\<lparr>state := (state s)\<lparr>phase := CONFIRMED,
          turns_elapsed := turns_elapsed (state s) + 1,
          decay_log := decay_log (state s) @
            [TickEntry (turns_elapsed (state s) + 1) d
               (round4 (exp (- kappa s * of_int (turns_elapsed (state s) + 1))))
               (map (\<lambda>x. x * exp (- kappa s * of_int (turns_elapsed (state s) + 1)))
                  (initial_integrals (state s)))]\<rparr>,
        history := history s @
          [ConfirmedEntry (initial_integrals (state s))
             (map (\<lambda>x. x * (1 - rho s)) (initial_integrals (state s))) (rho s)]\<rparr>, i)"
  using assms by (simp add: tick_def Let_def)

lemma tick_recurrence:
  assumes "phase (state s) = PENDING" "theta_cancel s < d"
  shows "tick s i d =
    (ActionRollback
       (phase_value (if turns_elapsed (state s) + 1 \<le> k_max s div 2
                     then HIJACK_DETECTED else CANCELLED))
       (turns_elapsed (state s) + 1 \<le> k_max s div 2),
     s\<lparr>state := (state s)\<lparr>
          phase := (if turns_elapsed (state s) + 1 \<le> k_max s div 2
                    then HIJACK_DETECTED else CANCELLED),
          turns_elapsed := turns_elapsed (state s) + 1,
          decay_log := decay_log (state s) @
            [CancelledEntry (turns_elapsed (state s) + 1) d (theta_cancel s)
               (turns_elapsed (state s) + 1 \<le> k_max s div 2) True]\<rparr>,
        history := history s @
          [CancelledEntry (turns_elapsed (state s) + 1) d (theta_cancel s)
             (turns_elapsed (state s) + 1 \<le> k_max s div 2) True]\<rparr>, i)"
  using assms by (simp add: tick_def Let_def)

lemma run_ticks_Cons:
  "run_ticks s (x # rest) =
     (fst (tick s (fst x) (snd x)) # fst (run_ticks (fst (snd (tick s (fst x) (snd x)))) rest),
      snd (run_ticks (fst (snd (tick s (fst x) (snd x)))) rest))"
  by (cases x) (simp split: prod.splits)

lemma run_ticks_append:
  "run_ticks s (xs @ ys) =
     (fst (run_ticks s xs) @ fst (run_ticks (snd (run_ticks s xs)) ys),
      snd (run_ticks (snd (run_ticks s xs)) ys))"
  by (induction xs arbitrary: s) (simp_all add: run_ticks_Cons del: run_ticks.simps(2))

lemma run_ticks_quiet:
  assumes "phase (state s) = PENDING"
    and "\<forall>x\<in>set ts. snd x \<le> theta_cancel s"
    and "turns_elapsed (state s) + int (length ts) < k_max s"
  shows "phase (state (snd (run_ticks s ts))) = PENDING \<and>
         turns_elapsed (state (snd (run_ticks s ts))) = turns_elapsed (state s) + int (length ts) \<and>
         initial_integrals (state (snd (run_ticks s ts))) = initial_integrals (state s) \<and>
         history (snd (run_ticks s ts)) = history s \<and>
         k_max (snd (run_ticks s ts)) = k_max s \<and>
         theta_cancel (snd (run_ticks s ts)) = theta_cancel s \<and>
         rho (snd (run_ticks s ts)) = rho s \<and>
         kappa (snd (run_ticks s ts)) = kappa s \<and>
         (\<forall>r\<in>set (fst (run_ticks s ts)). action r = ''monitoring'' \<and> result_phase r = ''pending'')"
  using assms
proof (induction ts arbitrary: s)
  case Nil
  then show ?case by simp
next
  case (Cons x ts)
  obtain i d where x: "x = (i, d)" by (cases x)
  from Cons.prems x have d: "d \<le> theta_cancel s"
    and lt: "turns_elapsed (state s) + 1 < k_max s" by auto
  let ?s' = "fst (snd (tick s i d))"
  note tk = tick_quiet_monitoring [OF Cons.prems(1) d lt, of i]
  have p: "phase (state ?s') = PENDING" using Cons.prems(1) by (simp add: tk)
  have q: "\<forall>x\<in>set ts. snd x \<le> theta_cancel ?s'" using Cons.prems(2) by (simp add: tk)
  have r: "turns_elapsed (state ?s') + int (length ts) < k_max ?s'"
    using Cons.prems(3) by (simp add: tk)
  have e: "run_ticks s (x # ts) =
      (fst (tick s i d) # fst (run_ticks ?s' ts), snd (run_ticks ?s' ts))"
    by (simp add: run_ticks_Cons x del: run_ticks.simps(2))
  from Cons.IH [OF p q r] show ?case
    unfolding e by (simp add: tk)
qed

lemma attempt_admitted:
  assumes "phase (state self) \<noteq> PENDING" "g_min < g" "0.7 < v"
  shows "attempt_miracle self base g g_min v =
    (PendingStarted g g_min (k_max self),
     self\<lparr>state := \<lparr>phase = PENDING, turns_elapsed = 0,
                     initial_integrals = base, decay_log = []\<rparr>\<rparr>)"
  using assms by (simp add: attempt_miracle_def)

lemma attempt_history: "history (snd (attempt_miracle s i g m v)) = history s"
  by (simp add: attempt_miracle_def)

lemma tick_history_cases:
  "history (fst (snd (tick s i d))) =
     (if phase (state s) = PENDING \<and> theta_cancel s < d then
        history s @ [CancelledEntry (turns_elapsed (state s) + 1) d (theta_cancel s)
                       (turns_elapsed (state s) + 1 \<le> k_max s div 2) True]
      else if phase (state s) = PENDING \<and> k_max s \<le> turns_elapsed (state s) + 1 then
        history s @ [ConfirmedEntry (initial_integrals (state s))
                       (map (\<lambda>x. x * (1 - rho s)) (initial_integrals (state s))) (rho s)]
      else history s)"
  by (simp add: tick_def Let_def)

lemma tick_phase_cases:
  "phase (state (fst (snd (tick s i d)))) =
     (if phase (state s) = PENDING \<and> theta_cancel s < d then
        (if turns_elapsed (state s) + 1 \<le> k_max s div 2 then HIJACK_DETECTED else CANCELLED)
      else if phase (state s) = PENDING \<and> k_max s \<le> turns_elapsed (state s) + 1 then CONFIRMED
      else phase (state s))"
  by (simp add: tick_def Let_def)

lemma reset_history: "history (reset s) = history s"
  by (simp add: reset_def)

lemma apply_call_prefix: "prefix (history s) (history (apply_call s c))"
  by (cases c) (simp_all add: attempt_history tick_history_cases reset_history)

lemma run_calls_prefix: "prefix (history s) (history (run_calls s cs))"
proof (induction cs arbitrary: s)
  case Nil
  show ?case by simp
next
  case (Cons c cs)
  have "prefix (history s) (history (apply_call s c))" by (rule apply_call_prefix)
  also have "prefix (history (apply_call s c)) (history (run_calls (apply_call s c) cs))"
    by (rule Cons.IH)
  finally show ?case by simp
qed

lemma run_ticks_quiet_log:
  assumes "phase (state s) = PENDING"
    and "\<forall>x\<in>set ts. snd x \<le> theta_cancel s"
    and "turns_elapsed (state s) + int (length ts) < k_max s"
  shows "length (decay_log (state (snd (run_ticks s ts)))) =
           length (decay_log (state s)) + length ts"
  using assms
proof (induction ts arbitrary: s)
  case Nil
  then show ?case by simp
next
  case (Cons x ts)
  obtain i d where x: "x = (i, d)" by (cases x)
  from Cons.prems x have d: "d \<le> theta_cancel s"
    and lt: "turns_elapsed (state s) + 1 < k_max s" by auto
  let ?s' = "fst (snd (tick s i d))"
  note tk = tick_quiet_monitoring [OF Cons.prems(1) d lt, of i]
  have p: "phase (state ?s') = PENDING" using Cons.prems(1) by (simp add: tk)
  have q: "\<forall>x\<in>set ts. snd x \<le> theta_cancel ?s'" using Cons.prems(2) by (simp add: tk)
  have r: "turns_elapsed (state ?s') + int (length ts) < k_max ?s'"
    using Cons.prems(3) by (simp add: tk)
  have e: "run_ticks s (x # ts) =
      (fst (tick s i d) # fst (run_ticks ?s' ts), snd (run_ticks ?s' ts))"
    by (simp add: run_ticks_Cons x del: run_ticks.simps(2))
  from Cons.IH [OF p q r] show ?case
    unfolding e by (simp add: tk)
qed

subsection \<open>The claims\<close>

text \<open>
  C1. Window completion. For every configuration with \<open>k_max \<ge> 1\<close> (and any \<open>rho\<close>) and
  every baseline vector: from the NONE phase, an admitted \<^verbatim>\<open>attempt_miracle\<close> followed by
  exactly \<open>k_max\<close> ticks, each with rate at most \<open>theta_cancel\<close>, stays PENDING before each
  of the ticks, answers "monitoring" on all but the last, and on the \<open>k_max\<close>-th tick moves to
  CONFIRMED, appends exactly one confirmation record to the history and returns
  \<open>new_integrals\<close> equal to the captured baseline times \<open>1 - rho\<close> elementwise.
\<close>

theorem window_completion:
  assumes "1 \<le> k_max self" and "phase (state self) = NONE"
    and "g_min < g" and "0.7 < v"
    and "int (length ts) = k_max self"
    and "\<forall>x\<in>set ts. snd x \<le> theta_cancel self"
  shows "fst (attempt_miracle self base g g_min v) = PendingStarted g g_min (k_max self) \<and>
    (\<forall>j<length ts.
       get_phase (snd (run_ticks (snd (attempt_miracle self base g g_min v)) (take j ts)))
         = PENDING) \<and>
    (\<forall>r\<in>set (butlast (fst (run_ticks (snd (attempt_miracle self base g g_min v)) ts))).
       action r = ''monitoring'' \<and> result_phase r = ''pending'') \<and>
    last (fst (run_ticks (snd (attempt_miracle self base g g_min v)) ts)) =
      ActionApplyReset ''confirmed'' (map (\<lambda>x. x * (1 - rho self)) base) base
        (map (\<lambda>x. x * (1 - rho self)) base) \<and>
    get_phase (snd (run_ticks (snd (attempt_miracle self base g g_min v)) ts)) = CONFIRMED \<and>
    get_history (snd (run_ticks (snd (attempt_miracle self base g g_min v)) ts)) =
      get_history self @
        [ConfirmedEntry base (map (\<lambda>x. x * (1 - rho self)) base) (rho self)]"
proof -
  let ?mid = "snd (attempt_miracle self base g g_min v)"
  have np: "phase (state self) \<noteq> PENDING" using assms(2) by simp
  note att = attempt_admitted [OF np assms(3) assms(4), of base]
  have mid_phase: "phase (state ?mid) = PENDING" by (simp add: att)
  have mid_turns: "turns_elapsed (state ?mid) = 0" by (simp add: att)
  have mid_base: "initial_integrals (state ?mid) = base" by (simp add: att)
  have mid_cfg: "k_max ?mid = k_max self" "theta_cancel ?mid = theta_cancel self"
    "rho ?mid = rho self" "history ?mid = history self"
    by (simp_all add: att)
  have ne: "ts \<noteq> []" using assms(1) assms(5) by auto
  have quiet_mid: "\<forall>x\<in>set us. snd x \<le> theta_cancel ?mid" if "set us \<subseteq> set ts" for us
    using that assms(6) mid_cfg(2) by auto
  have prefix_ok: "phase (state (snd (run_ticks ?mid (take j ts)))) = PENDING \<and>
      turns_elapsed (state (snd (run_ticks ?mid (take j ts)))) = int j \<and>
      initial_integrals (state (snd (run_ticks ?mid (take j ts)))) = base \<and>
      history (snd (run_ticks ?mid (take j ts))) = history self \<and>
      k_max (snd (run_ticks ?mid (take j ts))) = k_max self \<and>
      theta_cancel (snd (run_ticks ?mid (take j ts))) = theta_cancel self \<and>
      rho (snd (run_ticks ?mid (take j ts))) = rho self \<and>
      (\<forall>r\<in>set (fst (run_ticks ?mid (take j ts))).
          action r = ''monitoring'' \<and> result_phase r = ''pending'')"
    if j: "j < length ts" for j
  proof -
    have len: "length (take j ts) = j" using j by simp
    have lt: "turns_elapsed (state ?mid) + int (length (take j ts)) < k_max ?mid"
      using j assms(5) by (simp add: mid_turns mid_cfg(1))
    have q: "\<forall>x\<in>set (take j ts). snd x \<le> theta_cancel ?mid"
      by (rule quiet_mid) (rule set_take_subset)
    from run_ticks_quiet [OF mid_phase q lt] j show ?thesis
      by (simp add: mid_turns mid_base mid_cfg min_def)
  qed
  define n where "n = length ts - 1"
  let ?pre = "snd (run_ticks ?mid (take n ts))"
  have n_lt: "n < length ts" using ne by (cases ts) (auto simp: n_def)
  note pre = prefix_ok [OF n_lt]
  have split: "ts = take n ts @ [last ts]"
    using ne unfolding n_def by (metis butlast_conv_take append_butlast_last_id)
  have last_quiet: "snd (last ts) \<le> theta_cancel ?pre"
    using assms(6) ne pre by simp
  have full: "k_max ?pre \<le> turns_elapsed (state ?pre) + 1"
    using pre assms(5) ne by (cases ts) (auto simp: n_def)
  have pre_pending: "phase (state ?pre) = PENDING" using pre by simp
  note tk = tick_quiet_confirm [OF pre_pending last_quiet full, of "fst (last ts)"]
  have run_last: "run_ticks ?pre [last ts] =
      ([fst (tick ?pre (fst (last ts)) (snd (last ts)))],
       fst (snd (tick ?pre (fst (last ts)) (snd (last ts)))))"
    by (subst run_ticks_Cons) simp
  have whole: "run_ticks ?mid ts =
      (fst (run_ticks ?mid (take n ts)) @ [fst (tick ?pre (fst (last ts)) (snd (last ts)))],
       fst (snd (tick ?pre (fst (last ts)) (snd (last ts)))))"
    by (subst split, subst run_ticks_append) (simp add: run_last)
  have c1: "fst (attempt_miracle self base g g_min v) = PendingStarted g g_min (k_max self)"
    by (simp add: att)
  have c2: "\<forall>j<length ts. get_phase (snd (run_ticks ?mid (take j ts))) = PENDING"
    using prefix_ok by (simp add: get_phase_def)
  have c3: "\<forall>r\<in>set (butlast (fst (run_ticks ?mid ts))).
      action r = ''monitoring'' \<and> result_phase r = ''pending''"
    using pre by (simp add: whole)
  have c4: "last (fst (run_ticks ?mid ts)) =
      ActionApplyReset ''confirmed'' (map (\<lambda>x. x * (1 - rho self)) base) base
        (map (\<lambda>x. x * (1 - rho self)) base)"
    using pre by (simp add: whole tk)
  have c5: "get_phase (snd (run_ticks ?mid ts)) = CONFIRMED"
    by (simp add: whole tk get_phase_def)
  have c6: "get_history (snd (run_ticks ?mid ts)) =
      get_history self @
        [ConfirmedEntry base (map (\<lambda>x. x * (1 - rho self)) base) (rho self)]"
    using pre by (simp add: whole tk get_history_def)
  from c1 c2 c3 c4 c5 c6 show ?thesis by blast
qed

theorem window_completion_witness:
  "1 \<le> k_max (init_manager 5 0.05 0.3 0.5) \<and>
   phase (state (init_manager 5 0.05 0.3 0.5)) = NONE \<and>
   (0.4::real) < 0.85 \<and> (0.7::real) < 0.9 \<and>
   last (fst (run_ticks
      (snd (attempt_miracle (init_manager 5 0.05 0.3 0.5) [180, 260, 310, 190] 0.85 0.4 0.9))
      [([180, 260, 310, 190], 0.02), ([180, 260, 310, 190], - 0.01),
       ([180, 260, 310, 190], 0.01), ([180, 260, 310, 190], - 0.02),
       ([180, 260, 310, 190], 0)])) =
     ActionApplyReset ''confirmed'' [126, 182, 217, 133] [180, 260, 310, 190]
       [126, 182, 217, 133] \<and>
   get_phase (snd (run_ticks
      (snd (attempt_miracle (init_manager 5 0.05 0.3 0.5) [180, 260, 310, 190] 0.85 0.4 0.9))
      [([180, 260, 310, 190], 0.02), ([180, 260, 310, 190], - 0.01),
       ([180, 260, 310, 190], 0.01), ([180, 260, 310, 190], - 0.02),
       ([180, 260, 310, 190], 0)])) = CONFIRMED"
  using window_completion [where self = "init_manager 5 0.05 0.3 0.5"
      and g_min = "0.4" and g = "0.85" and v = "0.9"
      and ts = "[([180, 260, 310, 190], 0.02), ([180, 260, 310, 190], - 0.01),
        ([180, 260, 310, 190], 0.01), ([180, 260, 310, 190], - 0.02),
        ([180, 260, 310, 190], 0)]" and base = "[180, 260, 310, 190]"]
  by (simp add: init_manager_def default_state_def)

text \<open>
  C2. Early-abort law. In a pending cycle, when the \<open>m\<close>-th tick after admission (the earlier
  \<open>m - 1\<close> ticks having passed quietly) observes a rate strictly above \<open>theta_cancel\<close>, the
  phase becomes HIJACK_DETECTED if \<open>m \<le> k_max div 2\<close> and CANCELLED otherwise; the call
  answers "rollback" with no replacement vector, the caller's array is as it was, the
  captured baseline is untouched, and the record appended to the history carries the flag
  that the integrals were not altered.
\<close>

theorem early_abort:
  assumes "phase (state self) \<noteq> PENDING" and "g_min < g" and "0.7 < v"
    and "\<forall>x\<in>set ts. snd x \<le> theta_cancel self"
    and "ts = [] \<or> int (length ts) < k_max self"
    and "theta_cancel self < d"
  shows
    "get_phase (fst (snd (tick
        (snd (run_ticks (snd (attempt_miracle self base g g_min v)) ts)) cur d))) =
       (if int (length ts) + 1 \<le> k_max self div 2 then HIJACK_DETECTED else CANCELLED) \<and>
     fst (tick (snd (run_ticks (snd (attempt_miracle self base g g_min v)) ts)) cur d) =
       ActionRollback
         (if int (length ts) + 1 \<le> k_max self div 2 then ''hijack'' else ''cancelled'')
         (int (length ts) + 1 \<le> k_max self div 2) \<and>
     snd (snd (tick
        (snd (run_ticks (snd (attempt_miracle self base g g_min v)) ts)) cur d)) = cur \<and>
     initial_integrals (state (fst (snd (tick
        (snd (run_ticks (snd (attempt_miracle self base g g_min v)) ts)) cur d)))) = base \<and>
     get_history (fst (snd (tick
        (snd (run_ticks (snd (attempt_miracle self base g g_min v)) ts)) cur d))) =
       get_history self @
         [CancelledEntry (int (length ts) + 1) d (theta_cancel self)
            (int (length ts) + 1 \<le> k_max self div 2) True]"
proof -
  let ?mid = "snd (attempt_miracle self base g g_min v)"
  let ?pre = "snd (run_ticks ?mid ts)"
  note att = attempt_admitted [OF assms(1) assms(2) assms(3), of base]
  have mid_phase: "phase (state ?mid) = PENDING" by (simp add: att)
  have mid_turns: "turns_elapsed (state ?mid) = 0" by (simp add: att)
  have mid_base: "initial_integrals (state ?mid) = base" by (simp add: att)
  have mid_cfg: "k_max ?mid = k_max self" "theta_cancel ?mid = theta_cancel self"
    "history ?mid = history self"
    by (simp_all add: att)
  have pre: "phase (state ?pre) = PENDING \<and>
      turns_elapsed (state ?pre) = int (length ts) \<and>
      initial_integrals (state ?pre) = base \<and>
      history ?pre = history self \<and>
      k_max ?pre = k_max self \<and> theta_cancel ?pre = theta_cancel self"
  proof (cases "ts = []")
    case True
    then show ?thesis by (simp add: mid_phase mid_turns mid_base mid_cfg)
  next
    case False
    with assms(5) have lt: "turns_elapsed (state ?mid) + int (length ts) < k_max ?mid"
      by (simp add: mid_turns mid_cfg)
    have q: "\<forall>x\<in>set ts. snd x \<le> theta_cancel ?mid"
      using assms(4) by (simp add: mid_cfg)
    from run_ticks_quiet [OF mid_phase q lt] show ?thesis
      by (simp add: mid_turns mid_base mid_cfg)
  qed
  have pp: "phase (state ?pre) = PENDING" using pre by simp
  have dd: "theta_cancel ?pre < d" using pre assms(6) by simp
  note tk = tick_recurrence [OF pp dd, of cur]
  show ?thesis using pre
    by (simp add: tk get_phase_def get_history_def)
qed

theorem early_abort_witness:
  "phase (state (init_manager 5 0.05 0.3 0.5)) \<noteq> PENDING \<and>
   (0.05::real) < 0.08 \<and>
   get_phase (fst (snd (tick
      (snd (run_ticks
         (snd (attempt_miracle (init_manager 5 0.05 0.3 0.5) [180, 260, 310, 190] 0.85 0.4 0.9))
         [([180, 260, 310, 190], 0.02), ([180, 260, 310, 190], 0.01)]))
      [180, 260, 310, 190] 0.08))) = CANCELLED \<and>
   snd (snd (tick
      (snd (run_ticks
         (snd (attempt_miracle (init_manager 5 0.05 0.3 0.5) [180, 260, 310, 190] 0.85 0.4 0.9))
         [([180, 260, 310, 190], 0.02), ([180, 260, 310, 190], 0.01)]))
      [180, 260, 310, 190] 0.08)) = [180, 260, 310, 190] \<and>
   get_phase (fst (snd (tick
      (snd (run_ticks
         (snd (attempt_miracle (init_manager 5 0.05 0.3 0.5) [180, 260, 310, 190] 0.85 0.4 0.9))
         [([180, 260, 310, 190], 0.02)]))
      [180, 260, 310, 190] 0.08))) = HIJACK_DETECTED"
  using early_abort [where self = "init_manager 5 0.05 0.3 0.5"
      and g_min = "0.4" and g = "0.85" and v = "0.9"
      and ts = "[([180, 260, 310, 190], 0.02), ([180, 260, 310, 190], 0.01)]"
      and d = "0.08" and base = "[180, 260, 310, 190]" and cur = "[180, 260, 310, 190]"]
    early_abort [where self = "init_manager 5 0.05 0.3 0.5"
      and g_min = "0.4" and g = "0.85" and v = "0.9"
      and ts = "[([180, 260, 310, 190], 0.02)]"
      and d = "0.08" and base = "[180, 260, 310, 190]" and cur = "[180, 260, 310, 190]"]
  by (simp add: init_manager_def default_state_def)

text \<open>
  C8. In every state whose phase is not PENDING, \<^verbatim>\<open>tick\<close> is a no-op: the manager
  (phase, elapsed turns, per-cycle log, cumulative history) is returned unchanged and the
  result is the current phase's name with action "none".
\<close>

theorem tick_not_pending_noop:
  assumes "phase (state self) \<noteq> PENDING"
  shows "tick self integrals d =
           (ActionNone (phase_value (phase (state self))), self, integrals)"
  using assms by (simp add: tick_def)

theorem tick_not_pending_noop_witness:
  "phase (state (init_manager 5 0.05 0.3 0.5)) \<noteq> PENDING \<and>
   tick (init_manager 5 0.05 0.3 0.5) [180, 260, 310, 190] 0.08 =
     (ActionNone ''none'', init_manager 5 0.05 0.3 0.5, [180, 260, 310, 190])"
  using tick_not_pending_noop [of "init_manager 5 0.05 0.3 0.5" "[180, 260, 310, 190]" "0.08"]
  by (simp add: init_manager_def default_state_def)

text \<open>
  C3, as the code has it. \<^verbatim>\<open>attempt_miracle\<close> refuses only while PENDING: it then answers
  "already_pending" with the turns remaining and changes nothing. From every other phase
  (NONE, and CONFIRMED, CANCELLED and HIJACK_DETECTED alike) it tests the admission
  condition: when it holds a new PENDING cycle starts at once, with no \<^verbatim>\<open>reset\<close> in
  between; when it fails the answer is "rejected" and nothing changes.
\<close>

theorem attempt_miracle_cases:
  "(phase (state self) = PENDING \<longrightarrow>
      attempt_miracle self integrals g g_min v =
        (AlreadyPending (k_max self - turns_elapsed (state self)), self)) \<and>
   (phase (state self) \<noteq> PENDING \<and> g_min < g \<and> 0.7 < v \<longrightarrow>
      attempt_miracle self integrals g g_min v =
        (PendingStarted g g_min (k_max self),
         self\<lparr>state := \<lparr>phase = PENDING, turns_elapsed = 0,
                         initial_integrals = integrals, decay_log = []\<rparr>\<rparr>)) \<and>
   (phase (state self) \<noteq> PENDING \<and> \<not> (g_min < g \<and> 0.7 < v) \<longrightarrow>
      attempt_miracle self integrals g g_min v = (Rejected g g_min v, self))"
  by (simp add: attempt_miracle_def)

theorem attempt_miracle_cases_witness:
  "phase (state (snd (attempt_miracle (init_manager 5 0.05 0.3 0.5)
       [180, 260, 310, 190] 0.85 0.4 0.9))) = PENDING \<and>
   attempt_miracle
     (snd (attempt_miracle (init_manager 5 0.05 0.3 0.5) [180, 260, 310, 190] 0.85 0.4 0.9))
     [180, 260, 310, 190] 0.99 0.4 1 =
     (AlreadyPending 5,
      snd (attempt_miracle (init_manager 5 0.05 0.3 0.5) [180, 260, 310, 190] 0.85 0.4 0.9)) \<and>
   phase (state (init_manager 5 0.05 0.3 0.5)) \<noteq> PENDING \<and>
   (0.4::real) < 0.85 \<and> (0.7::real) < 0.9 \<and>
   attempt_miracle (init_manager 5 0.05 0.3 0.5) [180, 260, 310, 190] 0.85 0.4 0.9 =
     (PendingStarted 0.85 0.4 5,
      (init_manager 5 0.05 0.3 0.5)
        \<lparr>state := \<lparr>phase = PENDING, turns_elapsed = 0,
                    initial_integrals = [180, 260, 310, 190], decay_log = []\<rparr>\<rparr>) \<and>
   \<not> ((0.4::real) < 0.3 \<and> (0.7::real) < 0.9) \<and>
   attempt_miracle (init_manager 5 0.05 0.3 0.5) [180, 260, 310, 190] 0.3 0.4 0.9 =
     (Rejected 0.3 0.4 0.9, init_manager 5 0.05 0.3 0.5)"
  using attempt_miracle_cases [where
      self = "snd (attempt_miracle (init_manager 5 0.05 0.3 0.5)
                [180, 260, 310, 190] 0.85 0.4 0.9)"
      and integrals = "[180, 260, 310, 190]" and g = "0.99" and g_min = "0.4" and v = 1]
    attempt_miracle_cases [where self = "init_manager 5 0.05 0.3 0.5"
      and integrals = "[180, 260, 310, 190]" and g = "0.85" and g_min = "0.4" and v = "0.9"]
    attempt_miracle_cases [where self = "init_manager 5 0.05 0.3 0.5"
      and integrals = "[180, 260, 310, 190]" and g = "0.3" and g_min = "0.4" and v = "0.9"]
  by (simp add: init_manager_def default_state_def attempt_admitted)

text \<open>
  C3, as stated, fails: with \<open>k_max = 1\<close> one quiet tick confirms the cycle, and a further
  \<^verbatim>\<open>attempt_miracle\<close> on the CONFIRMED manager, without any \<^verbatim>\<open>reset\<close>, is admitted and
  captures the new baseline.
\<close>

theorem attempt_after_terminal_counterexample:
  "get_phase (fst (snd (tick
      (snd (attempt_miracle (init_manager 1 0.05 0.3 0.5) [180, 260, 310, 190] 0.85 0.4 0.9))
      [180, 260, 310, 190] 0))) = CONFIRMED \<and>
   attempt_miracle
     (fst (snd (tick
        (snd (attempt_miracle (init_manager 1 0.05 0.3 0.5) [180, 260, 310, 190] 0.85 0.4 0.9))
        [180, 260, 310, 190] 0)))
     [1, 2, 3, 4] 0.85 0.4 0.9 =
   (PendingStarted 0.85 0.4 1,
    (fst (snd (tick
        (snd (attempt_miracle (init_manager 1 0.05 0.3 0.5) [180, 260, 310, 190] 0.85 0.4 0.9))
        [180, 260, 310, 190] 0)))
      \<lparr>state := \<lparr>phase = PENDING, turns_elapsed = 0,
                  initial_integrals = [1, 2, 3, 4], decay_log = []\<rparr>\<rparr>)"
  by (simp add: get_phase_def attempt_miracle_def tick_def init_manager_def
        default_state_def Let_def)

text \<open>
  C9. The cumulative history is append-only: after any sequence of calls
  (\<^verbatim>\<open>attempt_miracle\<close>, \<^verbatim>\<open>tick\<close>, \<^verbatim>\<open>reset\<close>) the earlier history is a prefix of the
  later one; \<^verbatim>\<open>reset\<close> puts the state back to its default (phase NONE, the per-cycle
  fields discarded) and leaves the history as it was.
\<close>

theorem history_append_only:
  "prefix (get_history self) (get_history (run_calls self calls)) \<and>
   get_history (reset self) = get_history self \<and>
   get_phase (reset self) = NONE \<and>
   state (reset self) = default_state"
  by (simp add: get_history_def get_phase_def run_calls_prefix reset_def default_state_def)

text \<open>
  C10. The history grows only at terminal transitions. No \<^verbatim>\<open>attempt_miracle\<close>, admitted
  or not, changes it; a \<^verbatim>\<open>tick\<close> keeps the earlier records and adds exactly one record
  when it leaves PENDING for CONFIRMED, CANCELLED or HIJACK_DETECTED, and none otherwise.
  In a cycle admitted from a non-pending manager, the per-cycle log starts empty, quiet
  ticks before the window closes add one entry each to the per-cycle log and nothing to
  the history, and a \<^verbatim>\<open>reset\<close> then clears the per-cycle log and returns to NONE with the
  history exactly as it was before the cycle.
\<close>

theorem history_only_terminal:
  assumes "phase (state self) \<noteq> PENDING" and "g_min < g" and "0.7 < v"
    and "\<forall>x\<in>set ts. snd x \<le> theta_cancel self"
    and "ts = [] \<or> int (length ts) < k_max self"
  shows
    "get_history (snd (attempt_miracle mgr arr ev thr cons)) = get_history mgr \<and>
     take (length (get_history mgr)) (get_history (fst (snd (tick mgr arr rate)))) =
       get_history mgr \<and>
     length (get_history (fst (snd (tick mgr arr rate)))) =
       length (get_history mgr) +
         (if get_phase mgr = PENDING \<and>
             get_phase (fst (snd (tick mgr arr rate))) \<in> {CONFIRMED, CANCELLED, HIJACK_DETECTED}
          then 1 else 0) \<and>
     decay_log (state (snd (attempt_miracle self base g g_min v))) = [] \<and>
     get_history (snd (run_ticks (snd (attempt_miracle self base g g_min v)) ts)) =
       get_history self \<and>
     length (decay_log (state
        (snd (run_ticks (snd (attempt_miracle self base g g_min v)) ts)))) = length ts \<and>
     decay_log (state (reset
        (snd (run_ticks (snd (attempt_miracle self base g g_min v)) ts)))) = [] \<and>
     get_phase (reset
        (snd (run_ticks (snd (attempt_miracle self base g g_min v)) ts))) = NONE \<and>
     get_history (reset
        (snd (run_ticks (snd (attempt_miracle self base g g_min v)) ts))) = get_history self"
proof -
  let ?mid = "snd (attempt_miracle self base g g_min v)"
  let ?pre = "snd (run_ticks ?mid ts)"
  note att = attempt_admitted [OF assms(1) assms(2) assms(3), of base]
  have mid_phase: "phase (state ?mid) = PENDING" by (simp add: att)
  have mid_turns: "turns_elapsed (state ?mid) = 0" by (simp add: att)
  have mid_log: "decay_log (state ?mid) = []" by (simp add: att)
  have mid_cfg: "k_max ?mid = k_max self" "theta_cancel ?mid = theta_cancel self"
    "history ?mid = history self"
    by (simp_all add: att)
  have pre: "history ?pre = history self \<and> length (decay_log (state ?pre)) = length ts"
  proof (cases "ts = []")
    case True
    then show ?thesis by (simp add: mid_log mid_cfg)
  next
    case False
    with assms(5) have lt: "turns_elapsed (state ?mid) + int (length ts) < k_max ?mid"
      by (simp add: mid_turns mid_cfg)
    have q: "\<forall>x\<in>set ts. snd x \<le> theta_cancel ?mid"
      using assms(4) by (simp add: mid_cfg)
    from run_ticks_quiet [OF mid_phase q lt] run_ticks_quiet_log [OF mid_phase q lt]
    show ?thesis by (simp add: mid_log mid_cfg)
  qed
  have c1: "get_history (snd (attempt_miracle mgr arr ev thr cons)) = get_history mgr"
    by (simp add: get_history_def attempt_history)
  have c2: "take (length (get_history mgr)) (get_history (fst (snd (tick mgr arr rate)))) =
       get_history mgr"
    by (simp add: get_history_def tick_history_cases)
  have c3: "length (get_history (fst (snd (tick mgr arr rate)))) =
       length (get_history mgr) +
         (if get_phase mgr = PENDING \<and>
             get_phase (fst (snd (tick mgr arr rate))) \<in> {CONFIRMED, CANCELLED, HIJACK_DETECTED}
          then 1 else 0)"
    by (simp add: get_history_def get_phase_def tick_history_cases tick_phase_cases)
  have c4: "decay_log (state ?mid) = []" by (rule mid_log)
  have c5: "get_history ?pre = get_history self" using pre by (simp add: get_history_def)
  have c6: "length (decay_log (state ?pre)) = length ts" using pre by simp
  have c7: "decay_log (state (reset ?pre)) = []" by (simp add: reset_def default_state_def)
  have c8: "get_phase (reset ?pre) = NONE"
    by (simp add: reset_def default_state_def get_phase_def)
  have c9: "get_history (reset ?pre) = get_history self"
    using pre by (simp add: reset_def get_history_def)
  from c1 c2 c3 c4 c5 c6 c7 c8 c9 show ?thesis by blast
qed

theorem history_only_terminal_witness:
  "phase (state (init_manager 5 0.05 0.3 0.5)) \<noteq> PENDING \<and>
   (0.4::real) < 0.85 \<and> (0.7::real) < 0.9 \<and>
   length (decay_log (state (snd (run_ticks
      (snd (attempt_miracle (init_manager 5 0.05 0.3 0.5) [180, 260, 310, 190] 0.85 0.4 0.9))
      [([180, 260, 310, 190], 0.02), ([180, 260, 310, 190], 0.01)])))) = 2 \<and>
   get_phase (reset (snd (run_ticks
      (snd (attempt_miracle (init_manager 5 0.05 0.3 0.5) [180, 260, 310, 190] 0.85 0.4 0.9))
      [([180, 260, 310, 190], 0.02), ([180, 260, 310, 190], 0.01)]))) = NONE \<and>
   get_history (reset (snd (run_ticks
      (snd (attempt_miracle (init_manager 5 0.05 0.3 0.5) [180, 260, 310, 190] 0.85 0.4 0.9))
      [([180, 260, 310, 190], 0.02), ([180, 260, 310, 190], 0.01)]))) = []"
  using history_only_terminal [where self = "init_manager 5 0.05 0.3 0.5"
      and g_min = "0.4" and g = "0.85" and v = "0.9"
      and ts = "[([180, 260, 310, 190], 0.02), ([180, 260, 310, 190], 0.01)]"
      and base = "[180, 260, 310, 190]"]
  by (simp add: init_manager_def default_state_def get_history_def)

section \<open>Properties of the anomaly tracker\<close>

lemma linalg_norm_zero: "linalg_norm (map2 (\<lambda>x y. x - y) v v) = 0"
proof -
  have "map (\<lambda>x. \<bar>x\<bar> ^ 2) (map2 (\<lambda>x y. x - y) v v) = map (\<lambda>x. 0) v"
    by (induction v) simp_all
  moreover have "sum_list (map (\<lambda>x. 0::real) v) = 0" by (induction v) simp_all
  ultimately show ?thesis by (simp add: linalg_norm_def)
qed

lemma update_anomaly_same:
  "update_anomaly self v v =
     (Inr ((1 - tau self) * a_anom self), self\<lparr>a_anom := (1 - tau self) * a_anom self\<rparr>)"
  by (simp add: update_anomaly_def np_subtract_def linalg_norm_zero Let_def)

lemma update_anomaly_ok:
  assumes "length d_obs = length d_hat"
  shows "update_anomaly self d_obs d_hat =
    (Inr ((1 - tau self) * a_anom self
            + tau self * linalg_norm (map2 (\<lambda>x y. x - y) d_obs d_hat)),
     self\<lparr>a_anom := (1 - tau self) * a_anom self
            + tau self * linalg_norm (map2 (\<lambda>x y. x - y) d_obs d_hat)\<rparr>)"
  using assms by (simp add: update_anomaly_def np_subtract_def Let_def)

lemma update_all_step:
  assumes "length d_obs = length d_hat"
  shows "update_all self ((d_obs, d_hat) # rest) =
    update_all (self\<lparr>a_anom := (1 - tau self) * a_anom self
       + tau self * linalg_norm (map2 (\<lambda>x y. x - y) d_obs d_hat)\<rparr>) rest"
  by (simp add: update_anomaly_ok [OF assms])

lemma linalg_norm_four_equal: "linalg_norm [a, a, a, a] = 2 * \<bar>a\<bar>"
proof -
  have "sum_list (map (\<lambda>x. \<bar>x\<bar> ^ 2) [a, a, a, a]) = (2 * \<bar>a\<bar>)\<^sup>2"
    by (simp add: power2_eq_square)
  then have "linalg_norm [a, a, a, a] = sqrt ((2 * \<bar>a\<bar>)\<^sup>2)"
    unfolding linalg_norm_def by (rule arg_cong)
  also have "\<dots> = 2 * \<bar>a\<bar>" by (subst real_sqrt_abs) simp
  finally show ?thesis .
qed

lemma scenario_run:
  "update_all (init_tracker 0.2 0.4 1)
     [([0.1, 0.1, 0.1, 0.1], [0.8, 0.8, 0.8, 0.8]),
      ([0.1, 0.1, 0.1, 0.1], [0.8, 0.8, 0.8, 0.8]),
      ([0.1, 0.1, 0.1, 0.1], [0.8, 0.8, 0.8, 0.8]),
      ([0.1, 0.1, 0.1, 0.1], [0.8, 0.8, 0.8, 0.8]),
      ([0.1, 0.1, 0.1, 0.1], [0.8, 0.8, 0.8, 0.8])] =
   Inr \<lparr>tau = 0.2, g0 = 0.4, alpha = 1, a_anom = 0.941248\<rparr>"
  by (simp add: init_tracker_def update_all_step linalg_norm_four_equal
        del: update_all.simps(2))

lemma scenario_g_min:
  "calculate_g_min \<lparr>tau = 0.2, g0 = 0.4, alpha = 1, a_anom = 0.941248\<rparr> =
     Some (0.4 + 0.6 * (0.941248 / 1.941248))"
  by (simp add: calculate_g_min_def)

lemma linalg_norm_3_4: "linalg_norm [- 3, - 4, 0, 0] = 5" "linalg_norm [3, 4, 0] = 5"
proof -
  have s: "sqrt ((5::real)\<^sup>2) = 5" by (subst real_sqrt_abs) simp
  have "sum_list (map (\<lambda>x. \<bar>x\<bar> ^ 2) [- 3, - 4, 0, 0::real]) = 5\<^sup>2" by simp
  then show "linalg_norm [- 3, - 4, 0, 0] = 5" unfolding linalg_norm_def using s by simp
  have "sum_list (map (\<lambda>x. \<bar>x\<bar> ^ 2) [3, 4, 0::real]) = 5\<^sup>2" by simp
  then show "linalg_norm [3, 4, 0] = 5" unfolding linalg_norm_def using s by simp
qed

text \<open>
  C4, as the code has it. \<^verbatim>\<open>update_anomaly\<close> has no dimension check of its own and no
  fixed dimension. When the two lengths differ and neither is one, the subtraction raises
  \<^verbatim>\<open>ValueError\<close> and the tracker is unchanged. When the lengths agree (whatever they
  are), or one operand has length one, the call succeeds and replaces \<open>a_anom\<close> by
  \<open>(1 - tau) * a_anom + tau * distance\<close>.
\<close>

theorem update_anomaly_dimension:
  "(length d_obs \<noteq> length d_hat \<and> length d_obs \<noteq> 1 \<and> length d_hat \<noteq> 1 \<longrightarrow>
      update_anomaly self d_obs d_hat = (Inl ValueError, self)) \<and>
   (length d_obs = length d_hat \<longrightarrow>
      update_anomaly self d_obs d_hat =
        (Inr ((1 - tau self) * a_anom self
                + tau self * linalg_norm (map2 (\<lambda>x y. x - y) d_obs d_hat)),
         self\<lparr>a_anom := (1 - tau self) * a_anom self
                + tau self * linalg_norm (map2 (\<lambda>x y. x - y) d_obs d_hat)\<rparr>)) \<and>
   (length d_obs = 1 \<and> length d_hat \<noteq> 1 \<longrightarrow>
      update_anomaly self d_obs d_hat =
        (Inr ((1 - tau self) * a_anom self
                + tau self * linalg_norm (map (\<lambda>y. hd d_obs - y) d_hat)),
         self\<lparr>a_anom := (1 - tau self) * a_anom self
                + tau self * linalg_norm (map (\<lambda>y. hd d_obs - y) d_hat)\<rparr>)) \<and>
   (length d_hat = 1 \<and> length d_obs \<noteq> 1 \<longrightarrow>
      update_anomaly self d_obs d_hat =
        (Inr ((1 - tau self) * a_anom self
                + tau self * linalg_norm (map (\<lambda>x. x - hd d_hat) d_obs)),
         self\<lparr>a_anom := (1 - tau self) * a_anom self
                + tau self * linalg_norm (map (\<lambda>x. x - hd d_hat) d_obs)\<rparr>))"
  by (auto simp add: update_anomaly_def np_subtract_def Let_def)

theorem update_anomaly_dimension_witness:
  "length [1, 2, 3::real] \<noteq> length [1, 2, 3, 4::real] \<and>
   length [1, 2, 3::real] \<noteq> 1 \<and> length [1, 2, 3, 4::real] \<noteq> 1 \<and>
   update_anomaly (init_tracker 0.2 0.4 1) [1, 2, 3] [1, 2, 3, 4] =
     (Inl ValueError, init_tracker 0.2 0.4 1) \<and>
   length [3, 4, 0::real] = length [0, 0, 0::real] \<and>
   update_anomaly (init_tracker 0.2 0.4 1) [3, 4, 0] [0, 0, 0] =
     (Inr 1, (init_tracker 0.2 0.4 1)\<lparr>a_anom := 1\<rparr>) \<and>
   length [0::real] = 1 \<and> length [3, 4, 0, 0::real] \<noteq> 1 \<and>
   update_anomaly (init_tracker 0.2 0.4 1) [0] [3, 4, 0, 0] =
     (Inr 1, (init_tracker 0.2 0.4 1)\<lparr>a_anom := 1\<rparr>) \<and>
   update_anomaly (init_tracker 0.2 0.4 1) [3, 4, 0] [0] =
     (Inr 1, (init_tracker 0.2 0.4 1)\<lparr>a_anom := 1\<rparr>)"
  using update_anomaly_dimension [where self = "init_tracker 0.2 0.4 1"
      and d_obs = "[1, 2, 3]" and d_hat = "[1, 2, 3, 4]"]
    update_anomaly_dimension [where self = "init_tracker 0.2 0.4 1"
      and d_obs = "[3, 4, 0]" and d_hat = "[0, 0, 0]"]
    update_anomaly_dimension [where self = "init_tracker 0.2 0.4 1"
      and d_obs = "[0]" and d_hat = "[3, 4, 0, 0]"]
    update_anomaly_dimension [where self = "init_tracker 0.2 0.4 1"
      and d_obs = "[3, 4, 0]" and d_hat = "[0]"]
  by (simp add: init_tracker_def linalg_norm_3_4)

text \<open>
  C4, as stated, fails: a vector of length one against a vector of length four is
  accepted and changes \<open>a_anom\<close>, and so is a pair of vectors of length three.
\<close>

theorem update_anomaly_dimension_counterexample:
  "update_anomaly (init_tracker 0.2 0.4 1) [0] [3, 4, 0, 0] =
     (Inr 1, \<lparr>tau = 0.2, g0 = 0.4, alpha = 1, a_anom = 1\<rparr>) \<and>
   update_anomaly (init_tracker 0.2 0.4 1) [3, 4, 0] [0, 0, 0] =
     (Inr 1, \<lparr>tau = 0.2, g0 = 0.4, alpha = 1, a_anom = 1\<rparr>)"
  by (simp add: update_anomaly_def np_subtract_def init_tracker_def Let_def linalg_norm_3_4)

subsection \<open>The threshold: the formula and its evaluation in doubles\<close>

text \<open>
  Over the reals the formula behaves as the docstring of \<^verbatim>\<open>calculate_g_min\<close> says: for
  \<open>alpha > 0\<close>, \<open>g0\<close> in \<open>[0, 1)\<close> and scores \<open>0 \<le> a < b\<close> the value is at least \<open>g0\<close>,
  strictly smaller than the value at \<open>b\<close>, and strictly below 1.
\<close>

lemma g_min_ideal_bounds:
  assumes "0 < alpha self" and "0 \<le> g0 self" and "g0 self < 1"
    and "0 \<le> a" and "a < b"
  shows "calculate_g_min (self\<lparr>a_anom := a\<rparr>) =
           Some (g0 self + (1 - g0 self) * (a / (a + alpha self))) \<and>
         calculate_g_min (self\<lparr>a_anom := b\<rparr>) =
           Some (g0 self + (1 - g0 self) * (b / (b + alpha self))) \<and>
         g0 self \<le> g0 self + (1 - g0 self) * (a / (a + alpha self)) \<and>
         g0 self + (1 - g0 self) * (a / (a + alpha self))
           < g0 self + (1 - g0 self) * (b / (b + alpha self)) \<and>
         g0 self + (1 - g0 self) * (b / (b + alpha self)) < 1"
proof -
  have pa: "0 < a + alpha self" and pb: "0 < b + alpha self" using assms by auto
  have fa: "0 \<le> a / (a + alpha self)" using assms pa by simp
  have fb: "b / (b + alpha self) < 1" using assms pb by simp
  have "a * (b + alpha self) < b * (a + alpha self)"
    using assms by (simp add: algebra_simps)
  then have mono: "a / (a + alpha self) < b / (b + alpha self)"
    using pa pb by (simp add: divide_simps mult.commute)
  have k: "0 < 1 - g0 self" using assms by simp
  have c1: "calculate_g_min (self\<lparr>a_anom := a\<rparr>) =
           Some (g0 self + (1 - g0 self) * (a / (a + alpha self)))"
    using pa by (simp add: calculate_g_min_def)
  have c2: "calculate_g_min (self\<lparr>a_anom := b\<rparr>) =
           Some (g0 self + (1 - g0 self) * (b / (b + alpha self)))"
    using pb by (simp add: calculate_g_min_def)
  have c3: "g0 self \<le> g0 self + (1 - g0 self) * (a / (a + alpha self))"
  proof -
    have "0 \<le> (1 - g0 self) * (a / (a + alpha self))"
      using k fa by (intro mult_nonneg_nonneg) simp_all
    then show ?thesis by linarith
  qed
  have c4: "g0 self + (1 - g0 self) * (a / (a + alpha self))
           < g0 self + (1 - g0 self) * (b / (b + alpha self))"
  proof -
    have "(1 - g0 self) * (a / (a + alpha self)) < (1 - g0 self) * (b / (b + alpha self))"
      using mono k by (rule mult_strict_left_mono)
    then show ?thesis by linarith
  qed
  have "(1 - g0 self) * (b / (b + alpha self)) < (1 - g0 self) * 1"
    using fb k by (rule mult_strict_left_mono)
  then have "(1 - g0 self) * (b / (b + alpha self)) < 1 - g0 self" by simp
  then have c5: "g0 self + (1 - g0 self) * (b / (b + alpha self)) < 1" by linarith
  from c1 c2 c3 c4 c5 show ?thesis by blast
qed

lemma binary64_normal:
  assumes "2 powr of_int e \<le> \<bar>x\<bar>" and "\<bar>x\<bar> < 2 powr (of_int e + 1)"
    and "- 1022 \<le> e"
    and "\<bar>real_of_int (round_half_even (x / 2 powr (of_int e - 52)))
            * 2 powr (of_int e - 52)\<bar> < 2 ^ 1024"
  shows "binary64 x =
           Some (of_int (round_half_even (x / 2 powr (of_int e - 52))) * 2 powr (of_int e - 52))"
proof -
  have pos: "0 < \<bar>x\<bar>" using assms(1) by (smt (verit) powr_gt_zero)
  have "\<lfloor>log 2 \<bar>x\<bar>\<rfloor> = e"
    using assms(1,2) pos by (subst floor_log_eq_powr_iff) simp_all
  then have m: "max \<lfloor>log 2 \<bar>x\<bar>\<rfloor> (- 1022) = e" using assms(3) by simp
  have nz: "x \<noteq> 0" using pos by simp
  show ?thesis
    unfolding binary64_def Let_def m using nz assms(4) by (simp add: not_le)
qed

lemma round_half_even_of_int: "round_half_even (of_int m) = m"
  by (simp add: round_half_even_def)

lemma binary64_sum_scenario: "binary64 (10 ^ 17 + 1) = Some (10 ^ 17)"
proof -
  have q: "round_half_even ((10 ^ 17 + 1) / 16) = 6250000000000000"
    by (simp add: round_half_even_def Let_def)
  have "binary64 (10 ^ 17 + 1) =
      Some (of_int (round_half_even ((10 ^ 17 + 1) / 2 powr (of_int 56 - 52)))
              * 2 powr (of_int 56 - 52))"
    using q by (intro binary64_normal) simp_all
  then show ?thesis using q by simp
qed

lemma binary64_exact:
  assumes "2 powr of_int e \<le> \<bar>x\<bar>" and "\<bar>x\<bar> < 2 powr (of_int e + 1)"
    and "- 1022 \<le> e" and "\<bar>x\<bar> < 2 ^ 1024"
    and "x = of_int m * 2 powr (of_int e - 52)"
  shows "binary64 x = Some x"
proof -
  have u: "(0::real) < 2 powr (of_int e - 52)" by simp
  have "x / 2 powr (of_int e - 52) = of_int m" using assms(5) u by simp
  then have r: "round_half_even (x / 2 powr (of_int e - 52)) = m"
    by (simp add: round_half_even_of_int)
  have "binary64 x =
      Some (of_int (round_half_even (x / 2 powr (of_int e - 52))) * 2 powr (of_int e - 52))"
    using assms(1-4) by (intro binary64_normal) (simp_all add: r assms(5) [symmetric])
  then show ?thesis by (simp add: r assms(5) [symmetric])
qed

lemma binary64_one: "binary64 1 = Some 1"
  by (rule binary64_exact [where e = 0 and m = "2 ^ 52"]) (simp_all add: powr_minus)

lemma binary64_one_minus_g0: "binary64 (1 - 3602879701896397 / 2 ^ 53) = Some (5404319552844595 / 2 ^ 53)"
proof -
  have v: "(1 - 3602879701896397 / 2 ^ 53 :: real) = 5404319552844595 / 2 ^ 53" by simp
  have "binary64 (5404319552844595 / 2 ^ 53) = Some (5404319552844595 / 2 ^ 53)"
    by (rule binary64_exact [where e = "- 1" and m = 5404319552844595])
       (simp_all add: powr_minus)
  then show ?thesis unfolding v .
qed

lemma binary64_literal_g0: "binary64 0.4 = Some (3602879701896397 / 2 ^ 53)"
proof -
  have q: "round_half_even (0.4 / 2 powr (of_int (- 2) - 52)) = 7205759403792794"
    by (simp add: round_half_even_def Let_def powr_minus)
  have "binary64 0.4 =
      Some (of_int (round_half_even (0.4 / 2 powr (of_int (- 2) - 52)))
              * 2 powr (of_int (- 2) - 52))"
    using q by (intro binary64_normal) (simp_all add: powr_minus)
  then show ?thesis using q by (simp add: powr_minus)
qed

lemma binary64_score: "binary64 (10 ^ 17) = Some (10 ^ 17)"
  by (rule binary64_exact [where e = 56 and m = 6250000000000000]) simp_all

text \<open>
  C5. The threshold is claimed to lie in \<open>[g0, 1)\<close> and never to equal 1 at a finite score,
  and the docstring promises \<open>G_min < 1.0\<close> however large the score. The method as the
  interpreter runs it breaks this: with \<open>g0\<close> the double of the literal \<open>0.4\<close>,
  \<open>alpha = 1.0\<close> and the finite score \<open>a_anom = 1e17\<close> (itself a double), the sum
  \<open>a_anom + alpha\<close> rounds back to \<open>1e17\<close>, the quotient is exactly 1, and
  \<^verbatim>\<open>calculate_g_min\<close> returns exactly 1.
\<close>

theorem g_min_binary64_reaches_one:
  "binary64 0.4 = Some (3602879701896397 / 2 ^ 53) \<and>
   binary64 (10 ^ 17) = Some (10 ^ 17) \<and>
   calculate_g_min_binary64
     \<lparr>tau = 3602879701896397 / 2 ^ 54, g0 = 3602879701896397 / 2 ^ 53, alpha = 1,
        a_anom = 10 ^ 17\<rparr> = Some 1"
proof -
  have s: "binary64 (10 ^ 17 + 1) = Some (10 ^ 17)" by (rule binary64_sum_scenario)
  have f: "binary64 (10 ^ 17 / 10 ^ 17) = Some 1" using binary64_one by simp
  have p: "binary64 (5404319552844595 / 2 ^ 53 * 1) = Some (5404319552844595 / 2 ^ 53)"
    using binary64_one_minus_g0 by simp
  have t: "binary64 (3602879701896397 / 2 ^ 53 + 5404319552844595 / 2 ^ 53) = Some 1"
    using binary64_one by simp
  have "calculate_g_min_binary64
     \<lparr>tau = 3602879701896397 / 2 ^ 54, g0 = 3602879701896397 / 2 ^ 53, alpha = 1,
        a_anom = 10 ^ 17\<rparr> = Some 1"
    unfolding calculate_g_min_binary64_def using s f binary64_one_minus_g0 p t by simp
  with binary64_literal_g0 binary64_score show ?thesis by blast
qed

text \<open>
  C6. Pure forgetting. \<open>N\<close> successive \<^verbatim>\<open>update_anomaly\<close> calls in each of which the
  observed vector equals the predicted one all succeed and leave
  \<open>a_anom = a_anom\<^sub>0 * (1 - tau) ^ N\<close> (for any \<open>tau\<close> and any starting score).
\<close>

theorem pure_forgetting:
  assumes "\<forall>c\<in>set calls. fst c = snd c"
  shows "update_all self calls =
           Inr (self\<lparr>a_anom := a_anom self * (1 - tau self) ^ length calls\<rparr>)"
  using assms
proof (induction calls arbitrary: self)
  case Nil
  then show ?case by simp
next
  case (Cons c calls)
  obtain o1 p1 where c: "c = (o1, p1)" by (cases c)
  with Cons.prems have eq: "p1 = o1" by simp
  have rest: "\<forall>c\<in>set calls. fst c = snd c" using Cons.prems by simp
  show ?case
    by (simp add: c eq update_anomaly_same Cons.IH [OF rest] mult_ac)
qed

theorem pure_forgetting_witness:
  "update_all \<lparr>tau = 0.2, g0 = 0.4, alpha = 1, a_anom = 0.941248\<rparr>
     [([0.5, 0.5, 0.5, 0.5], [0.5, 0.5, 0.5, 0.5]),
      ([0.5, 0.5, 0.5, 0.5], [0.5, 0.5, 0.5, 0.5])] =
   Inr \<lparr>tau = 0.2, g0 = 0.4, alpha = 1, a_anom = 0.941248 * 0.8 ^ 2\<rparr>"
  using pure_forgetting [where self = "\<lparr>tau = 0.2, g0 = 0.4, alpha = 1, a_anom = 0.941248\<rparr>"
      and calls = "[([0.5, 0.5, 0.5, 0.5], [0.5, 0.5, 0.5, 0.5]),
      ([0.5, 0.5, 0.5, 0.5], [0.5, 0.5, 0.5, 0.5])]"]
  by (simp add: power2_eq_square)

text \<open>
  C7, as the code has it. With \<open>tau = 0.2\<close>, \<open>g0 = 0.4\<close>, \<open>alpha = 1\<close> and \<open>a_anom = 0\<close>,
  five updates with observed \<open>[0.1, 0.1, 0.1, 0.1]\<close> and predicted \<open>[0.8, 0.8, 0.8, 0.8]\<close>
  give \<open>a_anom = 1.4 * (1 - 0.8 ^ 5) = 0.941248\<close> and a threshold within \<open>0.001\<close> of
  \<open>0.691\<close>.
\<close>

theorem scenario_values:
  "update_all (init_tracker 0.2 0.4 1)
     [([0.1, 0.1, 0.1, 0.1], [0.8, 0.8, 0.8, 0.8]),
      ([0.1, 0.1, 0.1, 0.1], [0.8, 0.8, 0.8, 0.8]),
      ([0.1, 0.1, 0.1, 0.1], [0.8, 0.8, 0.8, 0.8]),
      ([0.1, 0.1, 0.1, 0.1], [0.8, 0.8, 0.8, 0.8]),
      ([0.1, 0.1, 0.1, 0.1], [0.8, 0.8, 0.8, 0.8])] =
     Inr \<lparr>tau = 0.2, g0 = 0.4, alpha = 1, a_anom = 1.4 * (1 - 0.8 ^ 5)\<rparr> \<and>
   (1.4 * (1 - 0.8 ^ 5) :: real) = 0.941248 \<and>
   calculate_g_min \<lparr>tau = 0.2, g0 = 0.4, alpha = 1, a_anom = 1.4 * (1 - 0.8 ^ 5)\<rparr> =
     Some (0.4 + 0.6 * (0.941248 / 1.941248)) \<and>
   \<bar>(0.4 + 0.6 * (0.941248 / 1.941248) :: real) - 0.691\<bar> < 0.001"
proof -
  have v: "(1.4 * (1 - 0.8 ^ 5) :: real) = 0.941248" by (simp add: power_def)
  show ?thesis unfolding v using scenario_run scenario_g_min by simp
qed

text \<open>
  C7, as stated, fails: the score after the five updates is \<open>0.941248\<close>, further than
  \<open>0.4\<close> from \<open>1.3417\<close>, and the threshold is further than \<open>0.05\<close> from \<open>0.744\<close>.
\<close>

theorem scenario_counterexample:
  "update_all (init_tracker 0.2 0.4 1)
     [([0.1, 0.1, 0.1, 0.1], [0.8, 0.8, 0.8, 0.8]),
      ([0.1, 0.1, 0.1, 0.1], [0.8, 0.8, 0.8, 0.8]),
      ([0.1, 0.1, 0.1, 0.1], [0.8, 0.8, 0.8, 0.8]),
      ([0.1, 0.1, 0.1, 0.1], [0.8, 0.8, 0.8, 0.8]),
      ([0.1, 0.1, 0.1, 0.1], [0.8, 0.8, 0.8, 0.8])] =
     Inr \<lparr>tau = 0.2, g0 = 0.4, alpha = 1, a_anom = 0.941248\<rparr> \<and>
   \<not> \<bar>(0.941248::real) - 1.3417\<bar> \<le> 0.4 \<and>
   calculate_g_min \<lparr>tau = 0.2, g0 = 0.4, alpha = 1, a_anom = 0.941248\<rparr> =
     Some (0.4 + 0.6 * (0.941248 / 1.941248)) \<and>
   \<not> \<bar>(0.4 + 0.6 * (0.941248 / 1.941248) :: real) - 0.744\<bar> \<le> 0.05"
  using scenario_run scenario_g_min by simp

end
